theory Spec2Isabelle
  imports Main "HOL-Library.Sublist" "HOL-Library.AList"
begin

section \<open>Validator rules: the data the checkers observe\<close>

text \<open>
  The two rule checkers of \<^verbatim>\<open>omni/asset_validator/core\<close> see a prim only through
  four queries of the scene library: \<^verbatim>\<open>GetName()\<close>, \<^verbatim>\<open>IsA(UsdGeom.Subset)\<close>,
  \<^verbatim>\<open>HasAPI(UsdShade.MaterialBindingAPI)\<close> and \<^verbatim>\<open>GetProperties()\<close>. A prim is the
  record of the answers. A property is its name together with the value that
  \<^verbatim>\<open>Get()\<close> resolves for it (\<open>None\<close> for a relationship or a valueless attribute);
  property names are unique on a prim, and the list keeps the order of \<^verbatim>\<open>GetProperties()\<close>.
  Tokens are Python strings.
\<close>

type_synonym token = string

record prim =
  GetName :: string
  IsA_Subset :: bool
  HasAPI_MaterialBindingAPI :: bool
  GetProperties :: "(string \<times> token option) list"

definition materialBind :: token where
  \<comment> \<open>\<^verbatim>\<open>UsdShade.Tokens.materialBind\<close>\<close>
  "materialBind = ''materialBind''"

datatype fix_callable = apply_family_name_fix_ref | apply_material_binding_api_fix_ref

record failed_check =
  message :: string
  at :: prim
  suggestion :: "fix_callable \<times> string"

record checker =
  failedChecks :: "failed_check list"

definition AddFailedCheck :: "string \<Rightarrow> prim \<Rightarrow> fix_callable \<times> string \<Rightarrow> checker \<Rightarrow> checker" where
  \<comment> \<open>Modelled from the spec: \<^verbatim>\<open>BaseRuleChecker._AddFailedCheck\<close> belongs to the host
      validation framework and is not among the sources; one call records one failed
      check (message, prim, suggestion) on the checker.\<close>
  "AddFailedCheck msg p sug c =
     c\<lparr>failedChecks := failedChecks c @ [\<lparr>message = msg, at = p, suggestion = sug\<rparr>]\<rparr>"

definition GetFamilyNameAttr_Get :: "prim \<Rightarrow> token option" where
  \<comment> \<open>\<^verbatim>\<open>UsdGeom.Subset(prim).GetFamilyNameAttr().Get()\<close>: the value of the attribute named
      \<^verbatim>\<open>familyName\<close>, Python's \<^verbatim>\<open>None\<close> when there is no such attribute or it has no value.\<close>
  "GetFamilyNameAttr_Get p =
     (case map_of (GetProperties p) ''familyName'' of None \<Rightarrow> None | Some v \<Rightarrow> v)"

definition CreateFamilyNameAttr_Set :: "token \<Rightarrow> prim \<Rightarrow> prim" where
  \<comment> \<open>\<^verbatim>\<open>UsdGeom.Subset(prim).CreateFamilyNameAttr().Set(v)\<close>: the attribute
      \<^verbatim>\<open>familyName\<close> is created when absent, and its value becomes \<open>v\<close>.\<close>
  "CreateFamilyNameAttr_Set v p =
     p\<lparr>GetProperties := AList.update ''familyName'' (Some v) (GetProperties p)\<rparr>"

definition MaterialBindingAPI_Apply :: "prim \<Rightarrow> prim" where
  \<comment> \<open>\<^verbatim>\<open>UsdShade.MaterialBindingAPI.Apply(prim)\<close>\<close>
  "MaterialBindingAPI_Apply p = p\<lparr>HasAPI_MaterialBindingAPI := True\<rparr>"

subsection \<open>usdGeomSubset.py\<close>

definition apply_family_name_fix :: "'stage \<Rightarrow> prim \<Rightarrow> prim" where
  "apply_family_name_fix stage p = CreateFamilyNameAttr_Set materialBind p"

text \<open>
  The \<^verbatim>\<open>for prop in prim.GetProperties()\<close> loop of \<^verbatim>\<open>CheckPrim\<close>, with its two flags
  \<^verbatim>\<open>(hasMaterialBindingRel, hasFamilyName)\<close> as the accumulator.
\<close>

fun scan_properties :: "(string \<times> token option) list \<Rightarrow> bool \<times> bool \<Rightarrow> bool \<times> bool" where
  "scan_properties [] flags = flags"
| "scan_properties (prop # props) (hasMaterialBindingRel, hasFamilyName) =
     scan_properties props
       (hasMaterialBindingRel \<or> prefix ''material:binding'' (fst prop),
        hasFamilyName \<or> prefix ''familyName'' (fst prop))"

definition GeomSubset_message :: "prim \<Rightarrow> string" where
  "GeomSubset_message p =
     ''GeomSubset '' @ [CHR 0x27] @ GetName p @ [CHR 0x27] @
     '' has a material binding but no valid family name attribute.''"

definition UsdGeomSubsetChecker_CheckPrim :: "checker \<Rightarrow> prim \<Rightarrow> checker" where
  "UsdGeomSubsetChecker_CheckPrim self p =
     (if \<not> IsA_Subset p then self
      else
        let (hasMaterialBindingRel, hasFamilyName) =
              scan_properties (GetProperties p) (False, False)
        in if hasMaterialBindingRel \<and>
              (\<not> hasFamilyName \<or> GetFamilyNameAttr_Get p \<noteq> Some materialBind)
           then AddFailedCheck (GeomSubset_message p) p
                  (apply_family_name_fix_ref, ''Adds the family name attribute.'') self
           else self)"

subsection \<open>usdMaterialBindingApi.py\<close>

definition apply_material_binding_api_fix :: "'stage \<Rightarrow> prim \<Rightarrow> prim" where
  "apply_material_binding_api_fix stage p = MaterialBindingAPI_Apply p"

definition MaterialBindingApi_message :: "prim \<Rightarrow> string" where
  "MaterialBindingApi_message p =
     ''Prim '' @ [CHR 0x27] @ GetName p @ [CHR 0x27] @
     '' has a material binding but does not have the MaterialBindingApi.''"

definition UsdMaterialBindingApi_CheckPrim :: "checker \<Rightarrow> prim \<Rightarrow> checker" where
  "UsdMaterialBindingApi_CheckPrim self p =
     (if HasAPI_MaterialBindingAPI p then self
      else
        let hasMaterialBindingRel =
              list_ex (\<lambda>prop. prefix ''material:binding'' (fst prop)) (GetProperties p)
        in if hasMaterialBindingRel \<and> \<not> HasAPI_MaterialBindingAPI p
           then AddFailedCheck (MaterialBindingApi_message p) p
                  (apply_material_binding_api_fix_ref, ''Applies the material binding API.'') self
           else self)"

text \<open>Sample prims.\<close>

definition subset_partition :: prim where
  \<comment> \<open>a geometry subset bound to a material whose \<^verbatim>\<open>familyName\<close> is \<^verbatim>\<open>partition\<close>\<close>
  "subset_partition =
     \<lparr>GetName = ''top'', IsA_Subset = True, HasAPI_MaterialBindingAPI = True,
      GetProperties = [(''elementType'', Some ''face''), (''familyName'', Some ''partition''),
                       (''material:binding'', None)]\<rparr>"

definition subset_unnamed :: prim where
  \<comment> \<open>a geometry subset bound to a material, with no \<^verbatim>\<open>familyName\<close> property\<close>
  "subset_unnamed =
     \<lparr>GetName = ''side'', IsA_Subset = True, HasAPI_MaterialBindingAPI = False,
      GetProperties = [(''elementType'', Some ''face''), (''material:binding'', None)]\<rparr>"

definition no_checks :: checker where
  "no_checks = \<lparr>failedChecks = []\<rparr>"

section \<open>helloWorld.py: the script's state and its effects\<close>

text \<open>
  The script is a sequence of calls into the client and scene libraries. What the
  libraries answer is an argument of each function below; what the script does to them
  is appended to a trace, in program order, together with the lines it logs. The
  script's own state is the two module globals and, held for it by the resolver, the
  current checkpoint message.
\<close>

record node =
  GetPath :: string
  IsA_Mesh :: bool

record stage =
  url :: string
  Traverse :: "node list"

datatype level = LOG_DEBUG | LOG_INFO | LOG_WARNING | LOG_ERROR

datatype event =
    Log level string
  | Call_set_log_callback
  | Call_set_log_level_DEBUG
  | Call_initialize
  | Call_register_connection_status_callback
  | Call_live_wait_for_pending_updates
  | Call_shutdown
  | Call_set_checkpoint_message string
  | Call_Layer_Save string string
  | Call_live_process
  | Call_join_channel string
  | Call_send_message nat string
  | Call_Request_stop nat
  | Call_get_srt_xform_from_prim string
  | Call_TransformPrimSRT_do string int
  | Call_RigidBodyAPI_Apply string
  | Call_CollisionAPI_Apply string
  | Call_MeshCollisionAPI_Apply string
  | Call_Approximation_Set string token
  | Call_Stage_Open string
  | Call_create_folder string
  | Call_input

record script =
  g_connection_status_subscription :: "nat option"
  g_stage :: "stage option"
  checkpoint_message :: string
  trace :: "event list"

text \<open>
  How a run of the script can end early: \<^verbatim>\<open>sys.exit(text)\<close> prints the text and
  leaves with status 1, \<^verbatim>\<open>sys.exit(n)\<close> leaves with status \<open>n\<close>, and an exception
  that nothing catches (the file has no \<^verbatim>\<open>try\<close>) prints a traceback and ends the
  process as well.
\<close>

datatype process_exit =
    SystemExit_message string
  | SystemExit_status int
  | Uncaught string

datatype 'a outcome = Return 'a | Exit process_exit

definition emit :: "event \<Rightarrow> script \<Rightarrow> script" where
  "emit e s = s\<lparr>trace := trace s @ [e]\<rparr>"

definition sq :: string where
  \<comment> \<open>the single quote\<close>
  "sq = [CHR 0x27]"

definition initial_script :: script where
  \<comment> \<open>the module as loaded: lines 49 and 50, and a resolver with no checkpoint message\<close>
  "initial_script =
     \<lparr>g_connection_status_subscription = None, g_stage = None,
      checkpoint_message = [], trace = []\<rparr>"

subsection \<open>Connection set-up and tear-down\<close>

datatype ConnectionStatus =
  CONNECTING | CONNECTED | CONNECT_ERROR | DISCONNECTED | SIGNED_OUT | NO_USERNAME
  | AUTH_ABORT | AUTH_CANCELLED | AUTH_ERROR | AUTH_FAILED | SERVER_INCOMPATIBLE | INVALID_HOST

definition connectionStatusCallback ::
  "string \<Rightarrow> ConnectionStatus \<Rightarrow> script \<Rightarrow> unit outcome \<times> script" where
  "connectionStatusCallback u connectionStatus s =
     (if connectionStatus = CONNECT_ERROR
      then (Exit (SystemExit_message ''[ERROR] Failed connection, exiting.''), s)
      else (Return (), s))"

text \<open>
  \<^verbatim>\<open>startOmniverse\<close> and \<^verbatim>\<open>shutdownOmniverse\<close> assign to the name
  \<^verbatim>\<open>g_connection_status_subscription\<close> without a \<^verbatim>\<open>global\<close> statement, so in Python
  the name is a local variable of each function: the assignment is the \<open>let\<close> below, and
  the module global is not written. \<open>initialize_result\<close> is what
  \<^verbatim>\<open>omni.client.initialize()\<close> answers, \<open>subscription\<close> the handle that
  \<^verbatim>\<open>register_connection_status_callback\<close> returns.
\<close>

definition startOmniverse ::
  "bool \<Rightarrow> bool \<Rightarrow> nat \<Rightarrow> script \<Rightarrow> unit outcome \<times> script" where
  "startOmniverse logging_enabled initialize_result subscription s =
     (let s1 = emit Call_set_log_callback s;
          s2 = (if logging_enabled then emit Call_set_log_level_DEBUG s1 else s1);
          s3 = emit Call_initialize s2
      in if \<not> initialize_result
         then (Exit (SystemExit_message
                 ''[ERROR] Unable to initialize Omniverse client, exiting.''), s3)
         else
           let s4 = emit Call_register_connection_status_callback s3;
               local_g_connection_status_subscription = Some subscription
           in (Return (), s4))"

definition shutdownOmniverse :: "script \<Rightarrow> unit outcome \<times> script" where
  "shutdownOmniverse s =
     (let s1 = emit Call_live_wait_for_pending_updates s;
          local_g_connection_status_subscription = (None :: nat option);
          s2 = emit Call_shutdown s1
      in (Return (), s2))"

subsection \<open>URL validation\<close>

record omni_url =
  scheme :: "string option"

definition isValidOmniUrl :: "(string \<Rightarrow> omni_url) \<Rightarrow> string \<Rightarrow> bool" where
  \<comment> \<open>\<open>break_url\<close> is \<^verbatim>\<open>omni.client.break_url\<close>\<close>
  "isValidOmniUrl break_url u =
     (let omniURL = break_url u
      in if scheme omniURL = Some ''omniverse'' \<or> scheme omniURL = Some ''omni''
         then True else False)"

definition destination_warning :: "string \<Rightarrow> string" where
  "destination_warning p =
     ''This is not an Omniverse Nucleus URL: '' @ p @
     ''Correct Omniverse URL format is: omniverse://server_name/Path/To/Example/Folder'' @
     ''Allowing program to continue because file paths may be provided in the form: C:/Path/To/Stage''"

definition existing_warning :: "string \<Rightarrow> string" where
  "existing_warning p =
     ''This is not an Omniverse Nucleus URL: '' @ p @
     ''Correct Omniverse URL format is: omniverse://server_name/Path/To/Example/Folder/helloWorld_py.usd'' @
     ''Allowing program to continue because file paths may be provided in the form: C:/Path/To/Stage/helloWorld_py.usd''"

text \<open>
  Lines 725 to 735 of the main block: the two checks made on the command line's paths
  before any stage is created or opened. \<open>destination_path\<close> is a string (empty by
  default), \<open>existing_stage\<close> is \<^verbatim>\<open>None\<close> or a string; both are tested for truth first.
\<close>

definition main_url_checks ::
  "(string \<Rightarrow> omni_url) \<Rightarrow> string \<Rightarrow> string option \<Rightarrow> script \<Rightarrow> unit outcome \<times> script" where
  "main_url_checks break_url destination_path existing_stage s =
     (let s1 = (if destination_path \<noteq> [] \<and> \<not> isValidOmniUrl break_url destination_path
                then emit (Log LOG_WARNING (destination_warning destination_path)) s else s);
          s2 = (case existing_stage of
                  None \<Rightarrow> s1
                | Some e \<Rightarrow>
                    if e \<noteq> [] \<and> \<not> isValidOmniUrl break_url e
                    then emit (Log LOG_WARNING (existing_warning e)) s1 else s1)
      in (Return (), s2))"

subsection \<open>Saving the stage\<close>

text \<open>
  \<^verbatim>\<open>omni.usd_resolver.set_checkpoint_message\<close> replaces the resolver's message;
  \<^verbatim>\<open>Save()\<close> on the edit-target layer of \<^verbatim>\<open>g_stage\<close> is recorded with the stage's URL
  and the message in force when it runs. With \<^verbatim>\<open>g_stage\<close> still \<^verbatim>\<open>None\<close> the
  attribute access \<^verbatim>\<open>g_stage.GetEditTarget()\<close> raises.
\<close>

definition set_checkpoint_message :: "string \<Rightarrow> script \<Rightarrow> script" where
  "set_checkpoint_message m s =
     (emit (Call_set_checkpoint_message m) s)\<lparr>checkpoint_message := m\<rparr>"

definition save_stage :: "string \<Rightarrow> string \<Rightarrow> script \<Rightarrow> unit outcome \<times> script" where
  "save_stage stageUrl comment s =
     (let s1 = set_checkpoint_message comment s
      in case g_stage s1 of
           None \<Rightarrow> (Exit (Uncaught ''AttributeError''), s1)
         | Some st \<Rightarrow>
             let s2 = emit (Call_Layer_Save (url st) (checkpoint_message s1)) s1;
                 s3 = set_checkpoint_message [] s2;
                 s4 = emit Call_live_process s3
             in (Return (), s4))"

subsection \<open>Physics, mesh search, folder creation\<close>

definition enablePhysics :: "node \<Rightarrow> bool \<Rightarrow> bool \<Rightarrow> script \<Rightarrow> unit outcome \<times> script" where
  \<comment> \<open>\<open>collision_api\<close> is the truth value of what \<^verbatim>\<open>UsdPhysics.CollisionAPI.Apply\<close> returns\<close>
  "enablePhysics prim dynamic collision_api s =
     (let s1 = (if dynamic then emit (Call_RigidBodyAPI_Apply (GetPath prim)) s else s);
          s2 = emit (Call_CollisionAPI_Apply (GetPath prim)) s1
      in if \<not> collision_api
         then (Exit (SystemExit_status 1),
               emit (Log LOG_ERROR
                 ''Failed to apply UsdPhysics.CollisionAPI, check that the UsdPhysics plugin is located in the USD plugins folders'') s2)
         else if IsA_Mesh prim
         then
           let s3 = emit (Call_MeshCollisionAPI_Apply (GetPath prim)) s2
           in if dynamic
              then (Return (), emit (Call_Approximation_Set (GetPath prim) ''convexHull'') s3)
              else (Return (), emit (Call_Approximation_Set (GetPath prim) ''none'') s3)
         else (Return (), s2))"

fun first_mesh :: "node list \<Rightarrow> node option" where
  \<comment> \<open>the \<^verbatim>\<open>for node in g_stage.Traverse()\<close> loop of \<^verbatim>\<open>findGeomMesh\<close>, left at the first mesh\<close>
  "first_mesh [] = None"
| "first_mesh (n # ns) = (if IsA_Mesh n then Some n else first_mesh ns)"

text \<open>
  \<open>opened\<close> is what \<^verbatim>\<open>Usd.Stage.Open\<close> returns. The last statement reached when no
  mesh is found is \<^verbatim>\<open>sys.exit("...", existing_stage)\<close>: two arguments, which
  \<^verbatim>\<open>sys.exit\<close> rejects with a \<^verbatim>\<open>TypeError\<close> that nothing catches.
\<close>

definition findGeomMesh :: "string \<Rightarrow> stage option \<Rightarrow> script \<Rightarrow> node outcome \<times> script" where
  "findGeomMesh existing_stage opened s =
     (let s1 = emit (Log LOG_DEBUG existing_stage) s;
          s2 = (emit (Call_Stage_Open existing_stage) s1)\<lparr>g_stage := opened\<rparr>
      in case g_stage s2 of
           None \<Rightarrow>
             (Exit (SystemExit_message (''[ERROR] Unable to open stage'' @ existing_stage)), s2)
         | Some st \<Rightarrow>
             (case first_mesh (Traverse st) of
                Some n \<Rightarrow> (Return n, s2)
              | None \<Rightarrow> (Exit (Uncaught ''TypeError''), s2)))"

datatype Result =
  OK | OK_LATEST | OK_NOT_YET_FOUND | ERROR | ERROR_CONNECTION | ERROR_NOT_SUPPORTED
  | ERROR_ACCESS_DENIED | ERROR_NOT_FOUND | ERROR_BAD_VERSION | ERROR_ALREADY_EXISTS

fun Result_name :: "Result \<Rightarrow> string" where
  "Result_name OK = ''OK''"
| "Result_name OK_LATEST = ''OK_LATEST''"
| "Result_name OK_NOT_YET_FOUND = ''OK_NOT_YET_FOUND''"
| "Result_name ERROR = ''ERROR''"
| "Result_name ERROR_CONNECTION = ''ERROR_CONNECTION''"
| "Result_name ERROR_NOT_SUPPORTED = ''ERROR_NOT_SUPPORTED''"
| "Result_name ERROR_ACCESS_DENIED = ''ERROR_ACCESS_DENIED''"
| "Result_name ERROR_NOT_FOUND = ''ERROR_NOT_FOUND''"
| "Result_name ERROR_BAD_VERSION = ''ERROR_BAD_VERSION''"
| "Result_name ERROR_ALREADY_EXISTS = ''ERROR_ALREADY_EXISTS''"

definition createEmptyFolder :: "string \<Rightarrow> Result \<Rightarrow> script \<Rightarrow> unit outcome \<times> script" where
  \<comment> \<open>\<open>result\<close> is what \<^verbatim>\<open>omni.client.create_folder\<close> returns\<close>
  "createEmptyFolder emptyFolderPath result s =
     (let s1 = emit (Log LOG_INFO (''Creating new folder: '' @ emptyFolderPath)) s;
          s2 = emit (Call_create_folder emptyFolderPath) s1;
          s3 = emit (Log LOG_INFO
                 (''Finished (this may be an error if the folder already exists) [ '' @
                  Result_name result @ '' ]'')) s2
      in (Return (), s3))"

subsection \<open>The live-edit loop\<close>

text \<open>
  The loop's own variables are \<^verbatim>\<open>angle\<close> and \<^verbatim>\<open>join_request\<close> (the request's id, or
  \<^verbatim>\<open>None\<close> once the channel has been left). One iteration reads one key from
  \<^verbatim>\<open>getChar()\<close>, a \<^verbatim>\<open>bytes\<close> value, and on \<^verbatim>\<open>b'm'\<close> one line from \<^verbatim>\<open>input()\<close>, a
  string of code points; the user's input is the list of these pairs, one per iteration.
  The translation computed from \<^verbatim>\<open>math.sin\<close> and \<^verbatim>\<open>math.cos\<close> is floating point
  and is left out of the recorded transform, which keeps the prim and the angle.
\<close>

record live_edit =
  angle :: int
  join_request :: "nat option"

datatype control = Continue | Break | Raise process_exit

definition help_text :: string where
  "help_text =
     ''Enter '' @ sq @ ''t'' @ sq @ '' to transform, '' @ sq @ ''m'' @ sq @
     '' to send a channel message, '' @ sq @ ''l'' @ sq @ '' to leave the channel, or '' @
     sq @ ''q'' @ sq @ '' to quit.''"

definition encode_ascii :: "nat list \<Rightarrow> string option" where
  \<comment> \<open>\<^verbatim>\<open>message.encode('ascii')\<close>: \<open>None\<close> stands for \<^verbatim>\<open>UnicodeEncodeError\<close>\<close>
  "encode_ascii text =
     (if list_all (\<lambda>c. c < 128) text then Some (map char_of text) else None)"

definition live_edit_iteration ::
  "node \<Rightarrow> string \<Rightarrow> string \<times> nat list \<Rightarrow> live_edit \<times> script \<Rightarrow> control \<times> live_edit \<times> script" where
  "live_edit_iteration prim stageUrl inp ls =
     (let (option, typed) = inp;
          (l, s0) = ls;
          s = emit Call_live_process s0
      in if option = ''t'' then
           let angle' = (angle l + 15) mod 360;
               l' = l\<lparr>angle := angle'\<rparr>;
               s1 = emit (Call_get_srt_xform_from_prim (GetPath prim)) s;
               s2 = emit (Log LOG_INFO ''Setting pos and rot'') s1;
               s3 = emit (Call_TransformPrimSRT_do (GetPath prim) angle') s2
           in (case save_stage stageUrl [] s3 of
                 (Return _, s4) \<Rightarrow> (Continue, l', s4)
               | (Exit e, s4) \<Rightarrow> (Raise e, l', s4))
         else if option = ''m'' then
           (case join_request l of
              Some r \<Rightarrow>
                let s1 = emit (Log LOG_INFO ''Enter a channel message: '') s;
                    s2 = emit Call_input s1
                in (case encode_ascii typed of
                      None \<Rightarrow> (Raise (Uncaught ''UnicodeEncodeError''), l, s2)
                    | Some bytes \<Rightarrow> (Continue, l, emit (Call_send_message r bytes) s2))
            | None \<Rightarrow>
                (Continue, l, emit (Log LOG_INFO ''The message channel is disconnected.'') s))
         else if option = ''l'' then
           let s1 = emit (Log LOG_INFO ''Leaving message channel'') s
           in (case join_request l of
                 Some r \<Rightarrow> (Continue, l\<lparr>join_request := None\<rparr>, emit (Call_Request_stop r) s1)
               | None \<Rightarrow> (Continue, l, s1))
         else if option = ''q'' \<or> option = [CHR 0x1B] then
           (Break, l, emit (Log LOG_INFO ''Live edit complete'') s)
         else (Continue, l, emit (Log LOG_INFO help_text) s))"

text \<open>
  \<^verbatim>\<open>while True\<close>, over the keys typed so far. \<open>Continue\<close> as the result means that the
  loop is still running, blocked in \<^verbatim>\<open>getChar()\<close> for the next key; \<open>Break\<close> that the
  loop was left; \<open>Raise\<close> that the process ended inside an iteration.
\<close>

fun live_edit_loop ::
  "node \<Rightarrow> string \<Rightarrow> (string \<times> nat list) list \<Rightarrow> live_edit \<times> script \<Rightarrow> control \<times> live_edit \<times> script" where
  "live_edit_loop prim stageUrl [] ls = (Continue, ls)"
| "live_edit_loop prim stageUrl (inp # inps) ls =
     (case live_edit_iteration prim stageUrl inp ls of
        (Continue, ls') \<Rightarrow> live_edit_loop prim stageUrl inps ls'
      | (Break, ls') \<Rightarrow> (Break, ls')
      | (Raise e, ls') \<Rightarrow> (Raise e, ls'))"

definition run_live_edit ::
  "node \<Rightarrow> string \<Rightarrow> nat option \<Rightarrow> (string \<times> nat list) list \<Rightarrow> script \<Rightarrow> control \<times> live_edit \<times> script" where
  \<comment> \<open>\<open>join\<close> is what \<^verbatim>\<open>omni.client.join_channel_with_callback\<close> returns\<close>
  "run_live_edit prim stageUrl join inps s =
     (let angle0 = 0;
          s1 = emit Call_live_process s;
          prim_path = GetPath prim;
          s2 = emit (Log LOG_INFO
                 (''Begin Live Edit on '' @ prim_path @ '' - '' @ [CHR 0x0A] @ help_text @ [CHR 0x0A])) s1;
          s3 = emit (Call_join_channel (stageUrl @ ''.__omni_channel__'')) s2
      in live_edit_loop prim stageUrl inps (\<lparr>angle = angle0, join_request = join\<rparr>, s3))"

section \<open>tests/test\_all.py: cleaning the base URL\<close>

text \<open>
  What the harness reads from its surroundings: the platform name, the working
  directory, the environment, \<^verbatim>\<open>os.path.join\<close>, and \<^verbatim>\<open>subprocess.run\<close> as a function
  from the command line to the return code and the captured output, decoded.
\<close>

record test_env =
  platform_system :: string
  getcwd :: string
  getenv :: "string \<Rightarrow> string option"
  path_join :: "string \<Rightarrow> string \<Rightarrow> string"
  subprocess_run :: "string list \<Rightarrow> int \<times> string"

datatype test_error = AssertionError

definition g_base_url_env_key :: string where
  "g_base_url_env_key = ''OMNI_BASE_URL''"

definition g_default_base_url :: string where
  "g_default_base_url = ''omniverse://localhost/Projects/samplesTest''"

definition shell_ext :: "test_env \<Rightarrow> string" where
  "shell_ext env = (if platform_system env = ''Windows'' then ''.bat'' else ''.sh'')"

definition run_shell_script :: "test_env \<Rightarrow> string \<Rightarrow> string list \<Rightarrow> int \<times> string" where
  "run_shell_script env script argv =
     (let cmdline = [] @ [path_join env (getcwd env) (script @ shell_ext env)] @ argv;
          completed = subprocess_run env cmdline
      in (fst completed, snd completed))"

definition clean_base_url :: "test_env \<Rightarrow> test_error + unit" where
  "clean_base_url env =
     (let base_url = (case getenv env g_base_url_env_key of
                        None \<Rightarrow> g_default_base_url | Some v \<Rightarrow> v);
          (return_code, output) = run_shell_script env ''omnicli'' [''delete'', base_url]
      in if sublist ''Error: Not Found'' output then Inr ()
         else if return_code = 0 then Inr () else Inl AssertionError)"

section \<open>Sample inputs\<close>

definition box :: node where
  "box = \<lparr>GetPath = ''/World/box_0'', IsA_Mesh = True\<rparr>"

definition world :: node where
  "world = \<lparr>GetPath = ''/World'', IsA_Mesh = False\<rparr>"

definition sample_url :: string where
  "sample_url = ''omniverse://localhost/Users/test/helloworld_py.live''"

definition box_stage :: stage where
  "box_stage = \<lparr>url = sample_url, Traverse = [world, box]\<rparr>"

definition open_script :: script where
  \<comment> \<open>the script once \<open>box_stage\<close> is the open stage\<close>
  "open_script = initial_script\<lparr>g_stage := Some box_stage\<rparr>"

definition session :: "(string \<times> nat list) list" where
  \<comment> \<open>keys typed in a live-edit session; \<open>[104, 105]\<close> is the line \<^verbatim>\<open>hi\<close>\<close>
  "session =
     [(''x'', []), (''m'', [104, 105]), (''l'', []), (''m'', [104, 105]), (''t'', []), (''q'', [])]"

definition turns :: "(string \<times> nat list) list" where
  "turns = [(''t'', []), (''x'', []), (''t'', []), (''q'', []), (''t'', [])]"

definition sample_break_url :: "string \<Rightarrow> omni_url" where
  \<comment> \<open>stands for the client library's URL parser on the URLs of the examples below\<close>
  "sample_break_url u =
     \<lparr>scheme = (if prefix ''omniverse://'' u then Some ''omniverse''
                else if prefix ''omni://'' u then Some ''omni''
                else if prefix ''https://'' u then Some ''https''
                else None)\<rparr>"

definition absent_env :: test_env where
  \<comment> \<open>the delete script fails because the folder is not there\<close>
  "absent_env =
     \<lparr>platform_system = ''Linux'', getcwd = ''/repo'', getenv = (\<lambda>k. None),
      path_join = (\<lambda>a b. a @ ''/'' @ b),
      subprocess_run = (\<lambda>cmdline. (1, ''Error: Not Found''))\<rparr>"

definition denied_env :: test_env where
  \<comment> \<open>the delete script fails for another reason\<close>
  "denied_env =
     \<lparr>platform_system = ''Windows'', getcwd = ''C:/repo'',
      getenv = (\<lambda>k. if k = ''OMNI_BASE_URL'' then Some ''omniverse://nucleus/Projects/t'' else None),
      path_join = (\<lambda>a b. a @ ''/'' @ b),
      subprocess_run = (\<lambda>cmdline. (1, ''Error: Access Denied''))\<rparr>"

section \<open>Properties of the validator rules\<close>

lemma scan_properties_eq:
  "scan_properties props (m, f) =
     (m \<or> (\<exists>prop \<in> set props. prefix ''material:binding'' (fst prop)),
      f \<or> (\<exists>prop \<in> set props. prefix ''familyName'' (fst prop)))"
  by (induction props arbitrary: m f) auto

lemma CheckPrim_GeomSubset_eq:
  "UsdGeomSubsetChecker_CheckPrim c p =
     (if IsA_Subset p \<and>
         (\<exists>prop \<in> set (GetProperties p). prefix ''material:binding'' (fst prop)) \<and>
         ((\<forall>prop \<in> set (GetProperties p). \<not> prefix ''familyName'' (fst prop)) \<or>
          GetFamilyNameAttr_Get p \<noteq> Some materialBind)
      then c\<lparr>failedChecks := failedChecks c @
             [\<lparr>message = GeomSubset_message p, at = p,
               suggestion = (apply_family_name_fix_ref, ''Adds the family name attribute.'')\<rparr>]\<rparr>
      else c)"
  by (simp add: UsdGeomSubsetChecker_CheckPrim_def scan_properties_eq AddFailedCheck_def)

lemma CheckPrim_MaterialBindingApi_eq:
  "UsdMaterialBindingApi_CheckPrim c p =
     (if \<not> HasAPI_MaterialBindingAPI p \<and>
         (\<exists>prop \<in> set (GetProperties p). prefix ''material:binding'' (fst prop))
      then c\<lparr>failedChecks := failedChecks c @
             [\<lparr>message = MaterialBindingApi_message p, at = p,
               suggestion = (apply_material_binding_api_fix_ref,
                             ''Applies the material binding API.'')\<rparr>]\<rparr>
      else c)"
  by (simp add: UsdMaterialBindingApi_CheckPrim_def AddFailedCheck_def list_ex_iff)

lemma fix_family_name_props:
  "map_of (GetProperties (apply_family_name_fix stage p)) =
     (map_of (GetProperties p))(''familyName'' \<mapsto> Some materialBind)"
  by (simp add: apply_family_name_fix_def CreateFamilyNameAttr_Set_def AList.update_conv')

lemma fix_family_name_Get:
  "GetFamilyNameAttr_Get (apply_family_name_fix stage p) = Some materialBind"
  by (simp add: GetFamilyNameAttr_Get_def fix_family_name_props)

lemma fix_family_name_has:
  "\<exists>prop \<in> set (GetProperties (apply_family_name_fix stage p)). prefix ''familyName'' (fst prop)"
proof -
  have "''familyName'' \<in> fst ` set (GetProperties (apply_family_name_fix stage p))"
    by (simp add: apply_family_name_fix_def CreateFamilyNameAttr_Set_def AList.dom_update)
  then obtain q where q: "q \<in> set (GetProperties (apply_family_name_fix stage p))"
    "fst q = ''familyName''" by auto
  show ?thesis by (rule bexI[of _ q]) (simp_all add: q)
qed

lemma fix_family_name_CheckPrim:
  "UsdGeomSubsetChecker_CheckPrim c (apply_family_name_fix stage p) = c"
  using fix_family_name_has[of stage p]
  by (simp add: CheckPrim_GeomSubset_eq fix_family_name_Get)

lemma fix_material_binding_CheckPrim:
  "UsdMaterialBindingApi_CheckPrim c (apply_material_binding_api_fix stage p) = c"
  by (simp add: UsdMaterialBindingApi_CheckPrim_def apply_material_binding_api_fix_def
      MaterialBindingAPI_Apply_def)

subsection \<open>C1: what UsdGeomSubsetChecker.CheckPrim reports\<close>

text \<open>
  C1 as stated says that a bound geometry subset is reported exactly when its
  \<^verbatim>\<open>familyName\<close> attribute is missing. The prim \<open>subset_partition\<close> is a subset with a
  \<^verbatim>\<open>material:binding\<close> relationship whose \<^verbatim>\<open>familyName\<close> attribute is present, with the
  value \<^verbatim>\<open>partition\<close>; the checker reports it all the same, because the value is not
  \<^verbatim>\<open>materialBind\<close>.
\<close>

theorem GeomSubset_present_family_name_reported:
  "IsA_Subset subset_partition \<and>
   (''material:binding'', None) \<in> set (GetProperties subset_partition) \<and>
   map_of (GetProperties subset_partition) ''familyName'' = Some (Some ''partition'') \<and>
   failedChecks (UsdGeomSubsetChecker_CheckPrim no_checks subset_partition) =
     [\<lparr>message = GeomSubset_message subset_partition, at = subset_partition,
       suggestion = (apply_family_name_fix_ref, ''Adds the family name attribute.'')\<rparr>]"
  by (simp add: subset_partition_def no_checks_def UsdGeomSubsetChecker_CheckPrim_def
      GetFamilyNameAttr_Get_def materialBind_def AddFailedCheck_def)

text \<open>
  C1, amended: for every checker state and every prim, \<^verbatim>\<open>CheckPrim\<close> records one failed
  check, at that prim and suggesting the family-name fix, exactly when the prim is a
  \<^verbatim>\<open>UsdGeom.Subset\<close>, some property name begins with \<^verbatim>\<open>material:binding\<close>, and either no
  property name begins with \<^verbatim>\<open>familyName\<close> or the value of the \<^verbatim>\<open>familyName\<close> attribute
  is not the token \<^verbatim>\<open>materialBind\<close>; otherwise the checker is unchanged. At most one
  failed check is recorded per prim.
\<close>

theorem GeomSubset_CheckPrim_reports:
  "UsdGeomSubsetChecker_CheckPrim c p =
     (if IsA_Subset p \<and>
         (\<exists>prop \<in> set (GetProperties p). prefix ''material:binding'' (fst prop)) \<and>
         ((\<forall>prop \<in> set (GetProperties p). \<not> prefix ''familyName'' (fst prop)) \<or>
          GetFamilyNameAttr_Get p \<noteq> Some materialBind)
      then c\<lparr>failedChecks := failedChecks c @
             [\<lparr>message = GeomSubset_message p, at = p,
               suggestion = (apply_family_name_fix_ref, ''Adds the family name attribute.'')\<rparr>]\<rparr>
      else c) \<and>
   length (failedChecks (UsdGeomSubsetChecker_CheckPrim c p)) \<le> length (failedChecks c) + 1"
  by (simp add: CheckPrim_GeomSubset_eq)

text \<open>Witness for C1: a bound subset with no \<^verbatim>\<open>familyName\<close> property is reported once.\<close>

theorem GeomSubset_CheckPrim_reports_witness:
  "failedChecks (UsdGeomSubsetChecker_CheckPrim no_checks subset_unnamed) =
     [\<lparr>message = ''GeomSubset '' @ sq @ ''side'' @ sq @
                   '' has a material binding but no valid family name attribute.'',
       at = subset_unnamed,
       suggestion = (apply_family_name_fix_ref, ''Adds the family name attribute.'')\<rparr>]"
  using GeomSubset_CheckPrim_reports[of no_checks subset_unnamed]
  by (simp add: subset_unnamed_def no_checks_def GeomSubset_message_def sq_def)

subsection \<open>C2: what UsdMaterialBindingApi.CheckPrim reports\<close>

text \<open>
  C2: for every checker state and every prim, a failed check is recorded if and only if
  the prim does not have \<^verbatim>\<open>UsdShade.MaterialBindingAPI\<close> applied and some property name
  begins with \<^verbatim>\<open>material:binding\<close>; a prim that has the API applied leaves the checker as
  it was whatever its properties are.
\<close>

theorem MaterialBindingApi_CheckPrim_reports:
  "UsdMaterialBindingApi_CheckPrim c p =
     (if \<not> HasAPI_MaterialBindingAPI p \<and>
         (\<exists>prop \<in> set (GetProperties p). prefix ''material:binding'' (fst prop))
      then c\<lparr>failedChecks := failedChecks c @
             [\<lparr>message = MaterialBindingApi_message p, at = p,
               suggestion = (apply_material_binding_api_fix_ref,
                             ''Applies the material binding API.'')\<rparr>]\<rparr>
      else c) \<and>
   (HasAPI_MaterialBindingAPI p \<longrightarrow>
      (\<forall>props. UsdMaterialBindingApi_CheckPrim c (p\<lparr>GetProperties := props\<rparr>) = c))"
  by (simp add: CheckPrim_MaterialBindingApi_eq)

text \<open>
  Witness for C2: a prim with a binding and without the API is reported; a prim with the
  API is not, also when its properties are replaced by a binding.
\<close>

theorem MaterialBindingApi_CheckPrim_reports_witness:
  "failedChecks (UsdMaterialBindingApi_CheckPrim no_checks subset_unnamed) =
     [\<lparr>message = ''Prim '' @ sq @ ''side'' @ sq @
                   '' has a material binding but does not have the MaterialBindingApi.'',
       at = subset_unnamed,
       suggestion = (apply_material_binding_api_fix_ref, ''Applies the material binding API.'')\<rparr>] \<and>
   HasAPI_MaterialBindingAPI subset_partition \<and>
   UsdMaterialBindingApi_CheckPrim no_checks
     (subset_partition\<lparr>GetProperties := [(''material:binding:preview'', None)]\<rparr>) = no_checks"
  using MaterialBindingApi_CheckPrim_reports[of no_checks subset_unnamed]
    MaterialBindingApi_CheckPrim_reports[of no_checks subset_partition]
  by (simp add: subset_unnamed_def subset_partition_def no_checks_def
      MaterialBindingApi_message_def sq_def)

subsection \<open>C3: checking after the suggested fix\<close>

text \<open>
  C3: for every prim that \<^verbatim>\<open>UsdGeomSubsetChecker.CheckPrim\<close> flags,
  \<^verbatim>\<open>apply_family_name_fix\<close> sets the \<^verbatim>\<open>familyName\<close> attribute to
  \<^verbatim>\<open>UsdShade.Tokens.materialBind\<close> and changes nothing else of the prim, and \<^verbatim>\<open>CheckPrim\<close>
  on the fixed prim records no failure; for every prim that
  \<^verbatim>\<open>UsdMaterialBindingApi.CheckPrim\<close> flags, \<^verbatim>\<open>apply_material_binding_api_fix\<close> applies the
  API and changes nothing else, and \<^verbatim>\<open>CheckPrim\<close> on the fixed prim records no failure.
\<close>

theorem fixes_establish_checked_condition:
  "(failedChecks (UsdGeomSubsetChecker_CheckPrim c p) \<noteq> failedChecks c \<longrightarrow>
      GetFamilyNameAttr_Get (apply_family_name_fix stage p) = Some materialBind \<and>
      (\<forall>name. name \<noteq> ''familyName'' \<longrightarrow>
         map_of (GetProperties (apply_family_name_fix stage p)) name =
         map_of (GetProperties p) name) \<and>
      apply_family_name_fix stage p =
        p\<lparr>GetProperties := GetProperties (apply_family_name_fix stage p)\<rparr> \<and>
      UsdGeomSubsetChecker_CheckPrim c' (apply_family_name_fix stage p) = c') \<and>
   (failedChecks (UsdMaterialBindingApi_CheckPrim c p) \<noteq> failedChecks c \<longrightarrow>
      apply_material_binding_api_fix stage p = p\<lparr>HasAPI_MaterialBindingAPI := True\<rparr> \<and>
      UsdMaterialBindingApi_CheckPrim c' (apply_material_binding_api_fix stage p) = c')"
  by (simp add: fix_family_name_Get fix_family_name_props fix_family_name_CheckPrim
      fix_material_binding_CheckPrim)
     (simp add: apply_family_name_fix_def CreateFamilyNameAttr_Set_def
      apply_material_binding_api_fix_def MaterialBindingAPI_Apply_def)

text \<open>
  Witness for C3: \<open>subset_unnamed\<close> is flagged by both checkers; after each fix the
  corresponding check adds nothing.
\<close>

theorem fixes_establish_checked_condition_witness:
  "failedChecks (UsdGeomSubsetChecker_CheckPrim no_checks subset_unnamed) \<noteq> failedChecks no_checks \<and>
   failedChecks (UsdMaterialBindingApi_CheckPrim no_checks subset_unnamed) \<noteq> failedChecks no_checks \<and>
   GetProperties (apply_family_name_fix () subset_unnamed) =
     [(''elementType'', Some ''face''), (''material:binding'', None),
      (''familyName'', Some ''materialBind'')] \<and>
   UsdGeomSubsetChecker_CheckPrim no_checks (apply_family_name_fix () subset_unnamed) = no_checks \<and>
   UsdMaterialBindingApi_CheckPrim no_checks (apply_material_binding_api_fix () subset_unnamed) =
     no_checks"
proof -
  have flagged1:
    "failedChecks (UsdGeomSubsetChecker_CheckPrim no_checks subset_unnamed) \<noteq> failedChecks no_checks"
    by (simp add: CheckPrim_GeomSubset_eq subset_unnamed_def no_checks_def)
  have flagged2:
    "failedChecks (UsdMaterialBindingApi_CheckPrim no_checks subset_unnamed) \<noteq> failedChecks no_checks"
    by (simp add: CheckPrim_MaterialBindingApi_eq subset_unnamed_def no_checks_def)
  have props:
    "GetProperties (apply_family_name_fix () subset_unnamed) =
       [(''elementType'', Some ''face''), (''material:binding'', None),
        (''familyName'', Some ''materialBind'')]"
    by (simp add: apply_family_name_fix_def CreateFamilyNameAttr_Set_def subset_unnamed_def
        materialBind_def)
  note fixed = fixes_establish_checked_condition[of no_checks subset_unnamed "()" no_checks]
  from fixed flagged1
  have geom: "UsdGeomSubsetChecker_CheckPrim no_checks (apply_family_name_fix () subset_unnamed) =
      no_checks"
    by blast
  from fixed flagged2
  have api: "UsdMaterialBindingApi_CheckPrim no_checks
      (apply_material_binding_api_fix () subset_unnamed) = no_checks"
    by blast
  from flagged1 flagged2 props geom api show ?thesis
    by blast
qed

section \<open>Properties of helloWorld.py\<close>

subsection \<open>C6: the connection subscription global\<close>

text \<open>
  C6 says that after \<^verbatim>\<open>startOmniverse\<close> returns the module global
  \<^verbatim>\<open>g_connection_status_subscription\<close> holds the handle returned by
  \<^verbatim>\<open>register_connection_status_callback\<close>. Run from the freshly loaded module, with
  \<^verbatim>\<open>initialize()\<close> answering true and the registration returning handle 7, the function
  returns normally and the global is still \<^verbatim>\<open>None\<close>: the handle was bound to a local
  name.
\<close>

theorem startOmniverse_global_unset:
  "startOmniverse False True 7 initial_script =
     (Return (),
      \<lparr>g_connection_status_subscription = None, g_stage = None, checkpoint_message = [],
       trace = [Call_set_log_callback, Call_initialize, Call_register_connection_status_callback]\<rparr>)"
  by (simp add: startOmniverse_def initial_script_def emit_def)

subsection \<open>Helper facts: how each function ends\<close>

lemma startOmniverse_fail:
  "startOmniverse logging_enabled False subscription s =
      (Exit (SystemExit_message ''[ERROR] Unable to initialize Omniverse client, exiting.''),
       s\<lparr>trace := trace s @ [Call_set_log_callback] @
            (if logging_enabled then [Call_set_log_level_DEBUG] else []) @ [Call_initialize]\<rparr>)"
  by (simp add: startOmniverse_def emit_def Let_def)

lemma enablePhysics_fail:
  "enablePhysics prim dynamic False s =
      (Exit (SystemExit_status 1),
       s\<lparr>trace := trace s @
            (if dynamic then [Call_RigidBodyAPI_Apply (GetPath prim)] else []) @
            [Call_CollisionAPI_Apply (GetPath prim),
             Log LOG_ERROR
               ''Failed to apply UsdPhysics.CollisionAPI, check that the UsdPhysics plugin is located in the USD plugins folders'']\<rparr>)"
  by (simp add: enablePhysics_def emit_def Let_def)

lemma findGeomMesh_unopened:
  "fst (findGeomMesh existing_stage None s) =
      Exit (SystemExit_message (''[ERROR] Unable to open stage'' @ existing_stage))"
  by (simp add: findGeomMesh_def emit_def Let_def)

lemma createEmptyFolder_eq:
  "createEmptyFolder emptyFolderPath result s =
      (Return (),
       s\<lparr>trace := trace s @
            [Log LOG_INFO (''Creating new folder: '' @ emptyFolderPath),
             Call_create_folder emptyFolderPath,
             Log LOG_INFO (''Finished (this may be an error if the folder already exists) [ '' @
                           Result_name result @ '' ]'')]\<rparr>)"
  by (simp add: createEmptyFolder_def emit_def Let_def)

lemma save_stage_open:
  "g_stage s = Some st \<Longrightarrow>
   save_stage stageUrl comment s =
     (Return (),
      s\<lparr>checkpoint_message := [],
        trace := trace s @ [Call_set_checkpoint_message comment, Call_Layer_Save (url st) comment,
                            Call_set_checkpoint_message [], Call_live_process]\<rparr>)"
  by (simp add: save_stage_def set_checkpoint_message_def emit_def)

lemma save_stage_closed:
  "g_stage s = None \<Longrightarrow>
   save_stage stageUrl comment s =
     (Exit (Uncaught ''AttributeError''),
      s\<lparr>checkpoint_message := comment,
        trace := trace s @ [Call_set_checkpoint_message comment]\<rparr>)"
  by (simp add: save_stage_def set_checkpoint_message_def emit_def)

subsection \<open>C5: failing library calls\<close>

text \<open>
  C5 as stated lists folder creation among the calls whose failure ends the process.
  \<^verbatim>\<open>createEmptyFolder\<close> with \<^verbatim>\<open>create_folder\<close> answering \<^verbatim>\<open>ERROR_ACCESS_DENIED\<close> logs the
  result's name and returns; the script goes on.
\<close>

theorem createEmptyFolder_failure_continues:
  "ERROR_ACCESS_DENIED \<noteq> OK \<and>
   createEmptyFolder ''omniverse://localhost/Users/test/EmptyFolder'' ERROR_ACCESS_DENIED
       initial_script =
     (Return (),
      initial_script\<lparr>trace :=
        [Log LOG_INFO ''Creating new folder: omniverse://localhost/Users/test/EmptyFolder'',
         Call_create_folder ''omniverse://localhost/Users/test/EmptyFolder'',
         Log LOG_INFO
           ''Finished (this may be an error if the folder already exists) [ ERROR_ACCESS_DENIED ]'']\<rparr>)"
  by (simp add: createEmptyFolder_eq initial_script_def)

text \<open>
  C5, amended: a failing \<^verbatim>\<open>initialize\<close> in \<^verbatim>\<open>startOmniverse\<close>, a \<^verbatim>\<open>CONNECT_ERROR\<close> in
  \<^verbatim>\<open>connectionStatusCallback\<close> and a failing stage open in \<^verbatim>\<open>findGeomMesh\<close> end the
  process at once through \<^verbatim>\<open>sys.exit\<close> with a message; a failing \<^verbatim>\<open>CollisionAPI\<close>
  application in \<^verbatim>\<open>enablePhysics\<close> logs an error and ends the process with status 1.
  \<^verbatim>\<open>createEmptyFolder\<close> never ends the process: whatever \<^verbatim>\<open>create_folder\<close> answers, the
  result is logged and the function returns.
\<close>

theorem failing_calls_end_process:
  "startOmniverse logging_enabled False subscription s =
      (Exit (SystemExit_message ''[ERROR] Unable to initialize Omniverse client, exiting.''),
       s\<lparr>trace := trace s @ [Call_set_log_callback] @
            (if logging_enabled then [Call_set_log_level_DEBUG] else []) @ [Call_initialize]\<rparr>) \<and>
   connectionStatusCallback u CONNECT_ERROR s =
      (Exit (SystemExit_message ''[ERROR] Failed connection, exiting.''), s) \<and>
   enablePhysics prim dynamic False s =
      (Exit (SystemExit_status 1),
       s\<lparr>trace := trace s @
            (if dynamic then [Call_RigidBodyAPI_Apply (GetPath prim)] else []) @
            [Call_CollisionAPI_Apply (GetPath prim),
             Log LOG_ERROR
               ''Failed to apply UsdPhysics.CollisionAPI, check that the UsdPhysics plugin is located in the USD plugins folders'']\<rparr>) \<and>
   fst (findGeomMesh existing_stage None s) =
      Exit (SystemExit_message (''[ERROR] Unable to open stage'' @ existing_stage)) \<and>
   fst (createEmptyFolder emptyFolderPath result s) = Return ()"
  by (simp add: startOmniverse_fail enablePhysics_fail findGeomMesh_unopened createEmptyFolder_eq
      connectionStatusCallback_def)

text \<open>
  Witness for C5: each failing call from the freshly loaded module, and a folder that
  already exists.
\<close>

theorem failing_calls_end_process_witness:
  "fst (startOmniverse False False 7 initial_script) =
     Exit (SystemExit_message ''[ERROR] Unable to initialize Omniverse client, exiting.'') \<and>
   fst (connectionStatusCallback ''omniverse://localhost'' CONNECT_ERROR initial_script) =
     Exit (SystemExit_message ''[ERROR] Failed connection, exiting.'') \<and>
   fst (enablePhysics box True False initial_script) = Exit (SystemExit_status 1) \<and>
   fst (findGeomMesh ''omniverse://localhost/Users/test/gone.usd'' None initial_script) =
     Exit (SystemExit_message
       ''[ERROR] Unable to open stageomniverse://localhost/Users/test/gone.usd'') \<and>
   fst (createEmptyFolder ''omniverse://localhost/Users/test/EmptyFolder'' ERROR_ALREADY_EXISTS
          initial_script) = Return ()"
  using failing_calls_end_process[where s = initial_script
      and existing_stage = "''omniverse://localhost/Users/test/gone.usd''"
      and logging_enabled = False and subscription = 7 and prim = box and dynamic = True
      and u = "''omniverse://localhost''"
      and emptyFolderPath = "''omniverse://localhost/Users/test/EmptyFolder''"
      and result = ERROR_ALREADY_EXISTS]
  by simp

subsection \<open>C8: URL validation\<close>

lemma isValidOmniUrl_iff:
  "isValidOmniUrl break_url u \<longleftrightarrow>
      scheme (break_url u) = Some ''omniverse'' \<or> scheme (break_url u) = Some ''omni''"
  by (simp add: isValidOmniUrl_def Let_def)

lemma main_url_checks_eq:
  "main_url_checks break_url destination_path existing_stage s =
     (Return (),
      s\<lparr>trace := trace s @
         (if destination_path \<noteq> [] \<and> \<not> isValidOmniUrl break_url destination_path
          then [Log LOG_WARNING (destination_warning destination_path)] else []) @
         (case existing_stage of
            None \<Rightarrow> []
          | Some e \<Rightarrow> if e \<noteq> [] \<and> \<not> isValidOmniUrl break_url e
                      then [Log LOG_WARNING (existing_warning e)] else [])\<rparr>)"
  by (simp add: main_url_checks_def emit_def split: option.splits)

text \<open>
  C8: for every URL, \<^verbatim>\<open>isValidOmniUrl\<close> returns \<^verbatim>\<open>True\<close> if and only if the scheme that
  \<^verbatim>\<open>break_url\<close> finds is \<^verbatim>\<open>omniverse\<close> or \<^verbatim>\<open>omni\<close>; the main block's two checks always
  return normally, and add to the trace nothing but one warning for each non-empty path
  that is not valid.
\<close>

theorem isValidOmniUrl_schemes:
  "(isValidOmniUrl break_url u \<longleftrightarrow>
      scheme (break_url u) = Some ''omniverse'' \<or> scheme (break_url u) = Some ''omni'') \<and>
   main_url_checks break_url destination_path existing_stage s =
     (Return (),
      s\<lparr>trace := trace s @
         (if destination_path \<noteq> [] \<and> \<not> isValidOmniUrl break_url destination_path
          then [Log LOG_WARNING (destination_warning destination_path)] else []) @
         (case existing_stage of
            None \<Rightarrow> []
          | Some e \<Rightarrow> if e \<noteq> [] \<and> \<not> isValidOmniUrl break_url e
                      then [Log LOG_WARNING (existing_warning e)] else [])\<rparr>)"
  by (rule conjI[OF isValidOmniUrl_iff main_url_checks_eq])

text \<open>
  Witness for C8: a local file path is not a valid URL, and the script warns and goes on;
  a Nucleus URL is valid and draws no warning.
\<close>

theorem isValidOmniUrl_schemes_witness:
  "\<not> isValidOmniUrl sample_break_url ''C:/Path/To/Stage'' \<and>
   isValidOmniUrl sample_break_url ''omniverse://localhost/Users/test'' \<and>
   isValidOmniUrl sample_break_url ''omni://localhost/Users/test'' \<and>
   \<not> isValidOmniUrl sample_break_url ''https://localhost/Users/test'' \<and>
   main_url_checks sample_break_url ''C:/Path/To/Stage'' None initial_script =
     (Return (),
      initial_script\<lparr>trace := [Log LOG_WARNING (destination_warning ''C:/Path/To/Stage'')]\<rparr>) \<and>
   main_url_checks sample_break_url ''omniverse://localhost/Users/test'' None initial_script =
     (Return (), initial_script)"
  using isValidOmniUrl_schemes[of sample_break_url "''C:/Path/To/Stage''"
      "''C:/Path/To/Stage''" None initial_script]
    isValidOmniUrl_schemes[of sample_break_url "''omniverse://localhost/Users/test''"
      "''omniverse://localhost/Users/test''" None initial_script]
    isValidOmniUrl_schemes[of sample_break_url "''omni://localhost/Users/test''"]
    isValidOmniUrl_schemes[of sample_break_url "''https://localhost/Users/test''"]
  by (simp add: sample_break_url_def initial_script_def)

subsection \<open>Helper facts: the live-edit loop\<close>

lemma iteration_t_open:
  "g_stage s = Some st \<Longrightarrow>
   live_edit_iteration prim stageUrl (''t'', typed) (l, s) =
     (Continue, l\<lparr>angle := (angle l + 15) mod 360\<rparr>,
      s\<lparr>checkpoint_message := [],
        trace := trace s @
          [Call_live_process, Call_get_srt_xform_from_prim (GetPath prim),
           Log LOG_INFO ''Setting pos and rot'',
           Call_TransformPrimSRT_do (GetPath prim) ((angle l + 15) mod 360),
           Call_set_checkpoint_message [], Call_Layer_Save (url st) [],
           Call_set_checkpoint_message [], Call_live_process]\<rparr>)"
  by (simp add: live_edit_iteration_def Let_def emit_def save_stage_open)

lemma iteration_m_send:
  "join_request l = Some r \<Longrightarrow> encode_ascii typed = Some bytes \<Longrightarrow>
   live_edit_iteration prim stageUrl (''m'', typed) (l, s) =
     (Continue, l,
      s\<lparr>trace := trace s @
          [Call_live_process, Log LOG_INFO ''Enter a channel message: '', Call_input,
           Call_send_message r bytes]\<rparr>)"
  by (simp add: live_edit_iteration_def Let_def emit_def)

lemma iteration_m_left:
  "join_request l = None \<Longrightarrow>
   live_edit_iteration prim stageUrl (''m'', typed) (l, s) =
     (Continue, l,
      s\<lparr>trace := trace s @
          [Call_live_process, Log LOG_INFO ''The message channel is disconnected.'']\<rparr>)"
  by (simp add: live_edit_iteration_def Let_def emit_def)

lemma iteration_l:
  "live_edit_iteration prim stageUrl (''l'', typed) (l, s) =
     (Continue, l\<lparr>join_request := None\<rparr>,
      s\<lparr>trace := trace s @
          [Call_live_process, Log LOG_INFO ''Leaving message channel''] @
          (case join_request l of None \<Rightarrow> [] | Some r \<Rightarrow> [Call_Request_stop r])\<rparr>)"
  by (simp add: live_edit_iteration_def Let_def emit_def split: option.splits)

lemma iteration_quit:
  "option = ''q'' \<or> option = [CHR 0x1B] \<Longrightarrow>
   live_edit_iteration prim stageUrl (option, typed) (l, s) =
     (Break, l, s\<lparr>trace := trace s @ [Call_live_process, Log LOG_INFO ''Live edit complete'']\<rparr>)"
  by (auto simp add: live_edit_iteration_def Let_def emit_def)

lemma iteration_other:
  "option \<noteq> ''t'' \<Longrightarrow> option \<noteq> ''m'' \<Longrightarrow> option \<noteq> ''l'' \<Longrightarrow> option \<noteq> ''q'' \<Longrightarrow>
   option \<noteq> [CHR 0x1B] \<Longrightarrow>
   live_edit_iteration prim stageUrl (option, typed) (l, s) =
     (Continue, l, s\<lparr>trace := trace s @ [Call_live_process, Log LOG_INFO help_text]\<rparr>)"
  by (simp add: live_edit_iteration_def Let_def emit_def)

lemma iteration_Break_iff:
  "fst (live_edit_iteration prim stageUrl inp ls) = Break \<longleftrightarrow>
     fst inp = ''q'' \<or> fst inp = [CHR 0x1B]"
  by (cases inp; cases ls)
     (auto simp add: live_edit_iteration_def Let_def split: option.splits prod.splits outcome.splits)

lemma loop_Break_only:
  "fst (live_edit_loop prim stageUrl inps ls) = Break \<Longrightarrow>
     \<exists>inp \<in> set inps. fst inp = ''q'' \<or> fst inp = [CHR 0x1B]"
proof (induction inps arbitrary: ls)
  case Nil
  then show ?case by simp
next
  case (Cons inp inps)
  obtain c ls' where step: "live_edit_iteration prim stageUrl inp ls = (c, ls')"
    by (cases "live_edit_iteration prim stageUrl inp ls") auto
  show ?case
  proof (cases c)
    case Continue
    with step Cons.prems have "fst (live_edit_loop prim stageUrl inps ls') = Break" by simp
    from Cons.IH[OF this] show ?thesis by auto
  next
    case Break
    with step have "fst (live_edit_iteration prim stageUrl inp ls) = Break" by simp
    then show ?thesis by (simp add: iteration_Break_iff)
  next
    case (Raise e)
    with step Cons.prems show ?thesis by simp
  qed
qed

lemma loop_append:
  "live_edit_loop prim stageUrl (xs @ ys) ls =
     (case live_edit_loop prim stageUrl xs ls of
        (Continue, ls') \<Rightarrow> live_edit_loop prim stageUrl ys ls'
      | (Break, ls') \<Rightarrow> (Break, ls')
      | (Raise e, ls') \<Rightarrow> (Raise e, ls'))"
proof (induction xs arbitrary: ls)
  case Nil
  then show ?case by simp
next
  case (Cons x xs)
  obtain c ls' where step: "live_edit_iteration prim stageUrl x ls = (c, ls')"
    by (cases "live_edit_iteration prim stageUrl x ls") auto
  show ?case
    by (cases c) (simp_all add: step Cons.IH)
qed

lemma run_Break_only:
  "fst (run_live_edit prim stageUrl join inps s) = Break \<Longrightarrow>
     \<exists>inp \<in> set inps. fst inp = ''q'' \<or> fst inp = [CHR 0x1B]"
  unfolding run_live_edit_def Let_def by (rule loop_Break_only)

lemma loop_quit_after:
  assumes "fst (live_edit_loop prim stageUrl inps ls) = Continue"
    and "option = ''q'' \<or> option = [CHR 0x1B]"
  shows "fst (live_edit_loop prim stageUrl (inps @ [(option, typed)]) ls) = Break"
proof -
  obtain c l' s' where r: "live_edit_loop prim stageUrl inps ls = (c, l', s')"
    by (cases "live_edit_loop prim stageUrl inps ls") auto
  with assms(1) have c: "c = Continue" by simp
  from assms(2) show ?thesis
    by (simp add: loop_append r c iteration_quit)
qed

lemma run_quit_after:
  "fst (run_live_edit prim stageUrl join inps s) = Continue \<Longrightarrow>
   option = ''q'' \<or> option = [CHR 0x1B] \<Longrightarrow>
   fst (run_live_edit prim stageUrl join (inps @ [(option, typed)]) s) = Break"
  unfolding run_live_edit_def Let_def by (rule loop_quit_after)

lemma iteration_angle:
  "angle (fst (snd (live_edit_iteration prim stageUrl inp ls))) =
     (if fst inp = ''t'' then (angle (fst ls) + 15) mod 360 else angle (fst ls))"
  by (cases inp; cases ls)
     (auto simp add: live_edit_iteration_def Let_def split: option.splits prod.splits outcome.splits)

lemma iteration_angle_inv:
  assumes "15 dvd angle (fst ls)" "0 \<le> angle (fst ls)" "angle (fst ls) < 360"
  shows "15 dvd angle (fst (snd (live_edit_iteration prim stageUrl inp ls))) \<and>
         0 \<le> angle (fst (snd (live_edit_iteration prim stageUrl inp ls))) \<and>
         angle (fst (snd (live_edit_iteration prim stageUrl inp ls))) < 360"
proof (cases "fst inp = ''t''")
  case True
  have "(15::int) dvd 360" by simp
  with assms(1) have "15 dvd (angle (fst ls) + 15) mod 360"
    by (simp add: dvd_mod)
  with True show ?thesis by (simp add: iteration_angle)
next
  case False
  with assms show ?thesis by (simp add: iteration_angle)
qed

lemma loop_angle_inv:
  "15 dvd angle (fst ls) \<Longrightarrow> 0 \<le> angle (fst ls) \<Longrightarrow> angle (fst ls) < 360 \<Longrightarrow>
   15 dvd angle (fst (snd (live_edit_loop prim stageUrl inps ls))) \<and>
   0 \<le> angle (fst (snd (live_edit_loop prim stageUrl inps ls))) \<and>
   angle (fst (snd (live_edit_loop prim stageUrl inps ls))) < 360"
proof (induction inps arbitrary: ls)
  case Nil
  then show ?case by simp
next
  case (Cons inp inps)
  obtain c ls' where step: "live_edit_iteration prim stageUrl inp ls = (c, ls')"
    by (cases "live_edit_iteration prim stageUrl inp ls") auto
  from iteration_angle_inv[OF Cons.prems, of prim stageUrl inp] step
  have inv: "15 dvd angle (fst ls')" "0 \<le> angle (fst ls')" "angle (fst ls') < 360"
    by simp_all
  show ?case
  proof (cases c)
    case Continue
    with step Cons.IH[OF inv] show ?thesis by simp
  next
    case Break
    with step inv show ?thesis by simp
  next
    case (Raise e)
    with step inv show ?thesis by simp
  qed
qed

lemma run_angle_inv:
  "15 dvd angle (fst (snd (run_live_edit prim stageUrl join inps s))) \<and>
   0 \<le> angle (fst (snd (run_live_edit prim stageUrl join inps s))) \<and>
   angle (fst (snd (run_live_edit prim stageUrl join inps s))) < 360"
  unfolding run_live_edit_def Let_def
  by (rule loop_angle_inv) simp_all


lemma iteration_checkpoint:
  "checkpoint_message (snd ls) = [] \<Longrightarrow>
   checkpoint_message (snd (snd (live_edit_iteration prim stageUrl inp ls))) = []"
  by (cases inp; cases ls; cases "g_stage (snd ls)")
     (auto simp add: live_edit_iteration_def Let_def emit_def save_stage_open save_stage_closed
       split: option.splits)

lemma loop_checkpoint:
  "checkpoint_message (snd ls) = [] \<Longrightarrow>
   checkpoint_message (snd (snd (live_edit_loop prim stageUrl inps ls))) = []"
proof (induction inps arbitrary: ls)
  case Nil
  then show ?case by simp
next
  case (Cons inp inps)
  obtain c ls' where step: "live_edit_iteration prim stageUrl inp ls = (c, ls')"
    by (cases "live_edit_iteration prim stageUrl inp ls") auto
  from iteration_checkpoint[OF Cons.prems, of prim stageUrl inp] step
  have inv: "checkpoint_message (snd ls') = []" by simp
  show ?case
  proof (cases c)
    case Continue
    with step Cons.IH[OF inv] show ?thesis by simp
  next
    case Break
    with step inv show ?thesis by simp
  next
    case (Raise e)
    with step inv show ?thesis by simp
  qed
qed

lemma run_checkpoint:
  "checkpoint_message s = [] \<Longrightarrow>
   checkpoint_message (snd (snd (run_live_edit prim stageUrl join inps s))) = []"
  unfolding run_live_edit_def Let_def
  by (rule loop_checkpoint) (simp add: emit_def)

lemma checkpoint_message_frames:
  "checkpoint_message (snd (startOmniverse le ir sub s)) = checkpoint_message s"
  "checkpoint_message (snd (shutdownOmniverse s)) = checkpoint_message s"
  "checkpoint_message (snd (connectionStatusCallback u cs s)) = checkpoint_message s"
  "checkpoint_message (snd (main_url_checks b dp es s)) = checkpoint_message s"
  "checkpoint_message (snd (enablePhysics prim dyn ca s)) = checkpoint_message s"
  "checkpoint_message (snd (findGeomMesh e opened s)) = checkpoint_message s"
  "checkpoint_message (snd (createEmptyFolder p r s)) = checkpoint_message s"
  by (simp_all add: startOmniverse_def shutdownOmniverse_def connectionStatusCallback_def
      main_url_checks_def enablePhysics_def findGeomMesh_def createEmptyFolder_def emit_def Let_def
      split: option.splits)

lemma encode_hi: "encode_ascii [104, 105] = Some ''hi''"
  by code_simp

subsection \<open>C9: the checkpoint message around a save\<close>

text \<open>
  C9: for every comment, \<^verbatim>\<open>save_stage\<close> on an open stage sets the checkpoint message to
  the comment, saves the edit-target layer under that message, resets the message to the
  empty string, calls \<^verbatim>\<open>live_process\<close> and returns, in this order; whenever
  \<^verbatim>\<open>save_stage\<close> returns, the checkpoint message is empty; a live-edit session
  started with an empty checkpoint message leaves it empty; and no other function of the
  script changes the checkpoint message.
\<close>

theorem save_stage_clears_checkpoint_message:
  "(g_stage s = Some st \<longrightarrow>
      save_stage stageUrl comment s =
        (Return (),
         s\<lparr>checkpoint_message := [],
           trace := trace s @
             [Call_set_checkpoint_message comment, Call_Layer_Save (url st) comment,
              Call_set_checkpoint_message [], Call_live_process]\<rparr>)) \<and>
   (\<forall>s'. save_stage stageUrl comment s = (Return (), s') \<longrightarrow> checkpoint_message s' = []) \<and>
   (checkpoint_message s = [] \<longrightarrow>
      checkpoint_message (snd (snd (run_live_edit prim stageUrl join inps s))) = []) \<and>
   checkpoint_message (snd (startOmniverse logging_enabled initialize_result subscription s)) =
     checkpoint_message s \<and>
   checkpoint_message (snd (shutdownOmniverse s)) = checkpoint_message s \<and>
   checkpoint_message (snd (connectionStatusCallback u connectionStatus s)) = checkpoint_message s \<and>
   checkpoint_message (snd (main_url_checks break_url destination_path existing_stage s)) =
     checkpoint_message s \<and>
   checkpoint_message (snd (enablePhysics prim dynamic collision_api s)) = checkpoint_message s \<and>
   checkpoint_message (snd (findGeomMesh existing opened s)) = checkpoint_message s \<and>
   checkpoint_message (snd (createEmptyFolder emptyFolderPath result s)) = checkpoint_message s"
proof (intro conjI impI allI)
  assume "g_stage s = Some st"
  then show "save_stage stageUrl comment s =
        (Return (),
         s\<lparr>checkpoint_message := [],
           trace := trace s @
             [Call_set_checkpoint_message comment, Call_Layer_Save (url st) comment,
              Call_set_checkpoint_message [], Call_live_process]\<rparr>)"
    by (rule save_stage_open)
next
  fix s' assume "save_stage stageUrl comment s = (Return (), s')"
  then show "checkpoint_message s' = []"
    by (cases "g_stage s") (auto simp add: save_stage_open save_stage_closed)
next
  assume "checkpoint_message s = []"
  then show "checkpoint_message (snd (snd (run_live_edit prim stageUrl join inps s))) = []"
    by (rule run_checkpoint)
qed (simp_all add: checkpoint_message_frames)

text \<open>Witness for C9: saving the open stage with the comment of \<^verbatim>\<open>createQuad\<close>.\<close>

theorem save_stage_clears_checkpoint_message_witness:
  "g_stage open_script = Some box_stage \<and>
   save_stage sample_url ''Created a Quad.'' open_script =
     (Return (),
      open_script\<lparr>trace :=
        [Call_set_checkpoint_message ''Created a Quad.'',
         Call_Layer_Save sample_url ''Created a Quad.'',
         Call_set_checkpoint_message [], Call_live_process]\<rparr>) \<and>
   checkpoint_message open_script = [] \<and>
   checkpoint_message (snd (snd (run_live_edit box sample_url (Some 1) session open_script))) = []"
proof -
  have opened: "g_stage open_script = Some box_stage"
    and empty: "checkpoint_message open_script = []"
    by (simp_all add: open_script_def initial_script_def)
  note saved = save_stage_clears_checkpoint_message[where s = open_script and st = box_stage
      and stageUrl = sample_url and comment = "''Created a Quad.''" and prim = box
      and join = "Some 1" and inps = session]
  from saved opened
  have "save_stage sample_url ''Created a Quad.'' open_script =
     (Return (),
      open_script\<lparr>checkpoint_message := [],
        trace := trace open_script @
          [Call_set_checkpoint_message ''Created a Quad.'',
           Call_Layer_Save (url box_stage) ''Created a Quad.'',
           Call_set_checkpoint_message [], Call_live_process]\<rparr>)"
    by blast
  moreover from saved empty
  have "checkpoint_message (snd (snd (run_live_edit box sample_url (Some 1) session open_script))) = []"
    by blast
  ultimately show ?thesis
    using opened empty by (simp add: open_script_def initial_script_def box_stage_def)
qed

subsection \<open>C4: the key dispatch of the live-edit loop\<close>

text \<open>
  C4 as stated says that every key other than \<^verbatim>\<open>b't'\<close>, \<^verbatim>\<open>b'm'\<close>, \<^verbatim>\<open>b'l'\<close> and \<^verbatim>\<open>b'q'\<close>
  only prints the help prompt, and that the loop ends only on \<^verbatim>\<open>b'q'\<close>. The escape byte
  is none of the four, and a session whose only key is the escape byte leaves the loop
  without printing the help prompt.
\<close>

theorem escape_key_leaves_loop:
  "[CHR 0x1B] \<noteq> ''q'' \<and>
   run_live_edit box sample_url (Some 1) [([CHR 0x1B], [])] open_script =
     (Break, \<lparr>angle = 0, join_request = Some 1\<rparr>,
      open_script\<lparr>trace :=
        [Call_live_process,
         Log LOG_INFO (''Begin Live Edit on /World/box_0 - '' @ [CHR 0x0A] @ help_text @ [CHR 0x0A]),
         Call_join_channel ''omniverse://localhost/Users/test/helloworld_py.live.__omni_channel__'',
         Call_live_process, Log LOG_INFO ''Live edit complete'']\<rparr>)"
  by (simp add: run_live_edit_def iteration_quit emit_def box_def sample_url_def open_script_def
      initial_script_def)

text \<open>
  C4, amended: one iteration calls \<^verbatim>\<open>live_process\<close> and then dispatches on the key read.
  \<^verbatim>\<open>b't'\<close>, on an open stage, advances the angle, applies the transform and saves, and
  the loop continues. \<^verbatim>\<open>b'm'\<close> sends the typed line as a channel message when the join
  request is still held and the line is ASCII, and only logs that the channel is
  disconnected when the request has been given up; the loop continues. \<^verbatim>\<open>b'l'\<close> stops the
  join request if it is held and gives it up; the loop continues. \<^verbatim>\<open>b'q'\<close> and the escape
  byte \<^verbatim>\<open>b'\x1b'\<close> log completion and leave the loop. Any other key only logs the help
  prompt, and the loop continues. The loop is left only after \<^verbatim>\<open>b'q'\<close> or the escape byte
  has been read, and a loop that is still running is left by either of them.
\<close>

theorem live_edit_dispatch:
  "(g_stage s = Some st \<longrightarrow>
      live_edit_iteration prim stageUrl (''t'', typed) (l, s) =
        (Continue, l\<lparr>angle := (angle l + 15) mod 360\<rparr>,
         s\<lparr>checkpoint_message := [],
           trace := trace s @
             [Call_live_process, Call_get_srt_xform_from_prim (GetPath prim),
              Log LOG_INFO ''Setting pos and rot'',
              Call_TransformPrimSRT_do (GetPath prim) ((angle l + 15) mod 360),
              Call_set_checkpoint_message [], Call_Layer_Save (url st) [],
              Call_set_checkpoint_message [], Call_live_process]\<rparr>)) \<and>
   (join_request l = Some r \<and> encode_ascii typed = Some bytes \<longrightarrow>
      live_edit_iteration prim stageUrl (''m'', typed) (l, s) =
        (Continue, l,
         s\<lparr>trace := trace s @
             [Call_live_process, Log LOG_INFO ''Enter a channel message: '', Call_input,
              Call_send_message r bytes]\<rparr>)) \<and>
   (join_request l = None \<longrightarrow>
      live_edit_iteration prim stageUrl (''m'', typed) (l, s) =
        (Continue, l,
         s\<lparr>trace := trace s @
             [Call_live_process, Log LOG_INFO ''The message channel is disconnected.'']\<rparr>)) \<and>
   live_edit_iteration prim stageUrl (''l'', typed) (l, s) =
     (Continue, l\<lparr>join_request := None\<rparr>,
      s\<lparr>trace := trace s @
          [Call_live_process, Log LOG_INFO ''Leaving message channel''] @
          (case join_request l of None \<Rightarrow> [] | Some r \<Rightarrow> [Call_Request_stop r])\<rparr>) \<and>
   (option = ''q'' \<or> option = [CHR 0x1B] \<longrightarrow>
      live_edit_iteration prim stageUrl (option, typed) (l, s) =
        (Break, l,
         s\<lparr>trace := trace s @ [Call_live_process, Log LOG_INFO ''Live edit complete'']\<rparr>)) \<and>
   (option \<noteq> ''t'' \<and> option \<noteq> ''m'' \<and> option \<noteq> ''l'' \<and> option \<noteq> ''q'' \<and> option \<noteq> [CHR 0x1B] \<longrightarrow>
      live_edit_iteration prim stageUrl (option, typed) (l, s) =
        (Continue, l, s\<lparr>trace := trace s @ [Call_live_process, Log LOG_INFO help_text]\<rparr>)) \<and>
   (fst (run_live_edit prim stageUrl join inps s) = Break \<longrightarrow>
      (\<exists>inp \<in> set inps. fst inp = ''q'' \<or> fst inp = [CHR 0x1B])) \<and>
   (fst (run_live_edit prim stageUrl join inps s) = Continue \<and>
    (option = ''q'' \<or> option = [CHR 0x1B]) \<longrightarrow>
      fst (run_live_edit prim stageUrl join (inps @ [(option, typed)]) s) = Break)"
proof (intro conjI impI)
  show "live_edit_iteration prim stageUrl (''l'', typed) (l, s) =
     (Continue, l\<lparr>join_request := None\<rparr>,
      s\<lparr>trace := trace s @
          [Call_live_process, Log LOG_INFO ''Leaving message channel''] @
          (case join_request l of None \<Rightarrow> [] | Some r \<Rightarrow> [Call_Request_stop r])\<rparr>)"
    by (rule iteration_l)
qed (simp_all add: iteration_t_open iteration_m_send iteration_m_left iteration_quit
       iteration_other run_Break_only run_quit_after)

text \<open>
  Witness for C4: each row of the dispatch at a concrete state, and the session
  \<open>session\<close>, which ends with \<^verbatim>\<open>b'q'\<close>.
\<close>

theorem live_edit_dispatch_witness:
  "g_stage open_script = Some box_stage \<and>
   live_edit_iteration box sample_url (''t'', []) (\<lparr>angle = 345, join_request = Some 1\<rparr>, open_script) =
     (Continue, \<lparr>angle = 0, join_request = Some 1\<rparr>,
      open_script\<lparr>trace :=
        [Call_live_process, Call_get_srt_xform_from_prim ''/World/box_0'',
         Log LOG_INFO ''Setting pos and rot'', Call_TransformPrimSRT_do ''/World/box_0'' 0,
         Call_set_checkpoint_message [], Call_Layer_Save sample_url [],
         Call_set_checkpoint_message [], Call_live_process]\<rparr>) \<and>
   encode_ascii [104, 105] = Some ''hi'' \<and>
   live_edit_iteration box sample_url (''m'', [104, 105])
       (\<lparr>angle = 0, join_request = Some 1\<rparr>, open_script) =
     (Continue, \<lparr>angle = 0, join_request = Some 1\<rparr>,
      open_script\<lparr>trace :=
        [Call_live_process, Log LOG_INFO ''Enter a channel message: '', Call_input,
         Call_send_message 1 ''hi'']\<rparr>) \<and>
   live_edit_iteration box sample_url (''m'', [104, 105])
       (\<lparr>angle = 0, join_request = None\<rparr>, open_script) =
     (Continue, \<lparr>angle = 0, join_request = None\<rparr>,
      open_script\<lparr>trace :=
        [Call_live_process, Log LOG_INFO ''The message channel is disconnected.'']\<rparr>) \<and>
   live_edit_iteration box sample_url (''l'', []) (\<lparr>angle = 0, join_request = Some 1\<rparr>, open_script) =
     (Continue, \<lparr>angle = 0, join_request = None\<rparr>,
      open_script\<lparr>trace :=
        [Call_live_process, Log LOG_INFO ''Leaving message channel'', Call_Request_stop 1]\<rparr>) \<and>
   live_edit_iteration box sample_url (''q'', []) (\<lparr>angle = 0, join_request = Some 1\<rparr>, open_script) =
     (Break, \<lparr>angle = 0, join_request = Some 1\<rparr>,
      open_script\<lparr>trace := [Call_live_process, Log LOG_INFO ''Live edit complete'']\<rparr>) \<and>
   live_edit_iteration box sample_url (''x'', []) (\<lparr>angle = 0, join_request = Some 1\<rparr>, open_script) =
     (Continue, \<lparr>angle = 0, join_request = Some 1\<rparr>,
      open_script\<lparr>trace := [Call_live_process, Log LOG_INFO help_text]\<rparr>) \<and>
   fst (run_live_edit box sample_url (Some 1) (butlast session) open_script) = Continue \<and>
   fst (run_live_edit box sample_url (Some 1) (butlast session @ [(''q'', [])]) open_script) = Break"
proof -
  have opened: "g_stage open_script = Some box_stage"
    by (simp add: open_script_def)
  have running: "fst (run_live_edit box sample_url (Some 1) (butlast session) open_script) = Continue"
    by (simp add: run_live_edit_def session_def iteration_other iteration_m_send iteration_m_left
        iteration_l iteration_t_open encode_hi emit_def open_script_def)
  note row_t = live_edit_dispatch[where prim = box and stageUrl = sample_url and s = open_script
      and st = box_stage and typed = "[]" and l = "\<lparr>angle = 345, join_request = Some 1\<rparr>"
      and option = "''q''" and join = "Some 1" and inps = "butlast session"]
  note row_m = live_edit_dispatch[where prim = box and stageUrl = sample_url and s = open_script
      and typed = "[104, 105]" and l = "\<lparr>angle = 0, join_request = Some 1\<rparr>" and r = 1
      and bytes = "''hi''"]
  note row_m' = live_edit_dispatch[where prim = box and stageUrl = sample_url and s = open_script
      and typed = "[104, 105]" and l = "\<lparr>angle = 0, join_request = None\<rparr>"]
  note row_q = live_edit_dispatch[where prim = box and stageUrl = sample_url and s = open_script
      and typed = "[]" and l = "\<lparr>angle = 0, join_request = Some 1\<rparr>" and option = "''q''"]
  note row_x = live_edit_dispatch[where prim = box and stageUrl = sample_url and s = open_script
      and typed = "[]" and l = "\<lparr>angle = 0, join_request = Some 1\<rparr>" and option = "''x''"]
  from row_t opened running row_m row_m' row_q row_x show ?thesis
    by (simp add: encode_hi open_script_def initial_script_def box_def box_stage_def)
qed

subsection \<open>C10: the angle\<close>

text \<open>
  C10: in \<^verbatim>\<open>run_live_edit\<close> the angle starts at 0; one iteration replaces it with
  \<^verbatim>\<open>(angle + 15) % 360\<close> when the key is \<^verbatim>\<open>b't'\<close> and leaves it as it is otherwise; and
  after any number of iterations, on any input, it is a multiple of 15 in the range from
  0 up to but not including 360.
\<close>

theorem live_edit_angle_invariant:
  "angle (fst (snd (run_live_edit prim stageUrl join [] s))) = 0 \<and>
   angle (fst (snd (live_edit_iteration prim stageUrl inp (l, sc)))) =
     (if fst inp = ''t'' then (angle l + 15) mod 360 else angle l) \<and>
   (\<forall>n. 15 dvd angle (fst (snd (run_live_edit prim stageUrl join (take n inps) s))) \<and>
        0 \<le> angle (fst (snd (run_live_edit prim stageUrl join (take n inps) s))) \<and>
        angle (fst (snd (run_live_edit prim stageUrl join (take n inps) s))) < 360)"
  using iteration_angle[of prim stageUrl inp "(l, sc)"]
  by (simp add: run_angle_inv) (simp add: run_live_edit_def)

text \<open>
  Witness for C10: two turns, a key that is not a command and a quit give the angle 30;
  a turn at 345 wraps to 0.
\<close>

theorem live_edit_angle_invariant_witness:
  "angle (fst (snd (run_live_edit box sample_url (Some 1) (take 5 turns) open_script))) = 30 \<and>
   angle (fst (snd (run_live_edit box sample_url (Some 1) (take 1 turns) open_script))) = 15 \<and>
   angle (fst (snd (live_edit_iteration box sample_url (''t'', [])
            (\<lparr>angle = 345, join_request = None\<rparr>, open_script)))) = 0"
proof -
  have opened: "g_stage open_script = Some box_stage"
    by (simp add: open_script_def)
  have five: "angle (fst (snd (run_live_edit box sample_url (Some 1) (take 5 turns) open_script))) = 30"
    by (simp add: run_live_edit_def turns_def iteration_other iteration_t_open iteration_quit
        emit_def open_script_def)
  have one: "angle (fst (snd (run_live_edit box sample_url (Some 1) (take 1 turns) open_script))) = 15"
    by (simp add: run_live_edit_def turns_def iteration_t_open emit_def open_script_def)
  from five one
    live_edit_angle_invariant[where prim = box and stageUrl = sample_url and join = "Some 1"
      and s = open_script and inps = turns and inp = "(''t'', [])"
      and l = "\<lparr>angle = 345, join_request = None\<rparr>" and sc = open_script]
  show ?thesis by simp
qed

section \<open>Properties of tests/test\_all.py\<close>

subsection \<open>C7: clean\_base\_url\<close>

text \<open>
  C7: \<^verbatim>\<open>clean_base_url\<close> runs the \<^verbatim>\<open>omnicli\<close> script of the working directory with the
  arguments \<^verbatim>\<open>delete\<close> and the base URL (the value of \<^verbatim>\<open>OMNI_BASE_URL\<close>, or the default);
  when the captured output contains \<^verbatim>\<open>Error: Not Found\<close> it returns without asserting,
  and otherwise it returns when the return code is 0 and fails its assertion when not.
\<close>

theorem clean_base_url_outcome:
  "clean_base_url env =
     (let base_url = (case getenv env ''OMNI_BASE_URL'' of
                        None \<Rightarrow> ''omniverse://localhost/Projects/samplesTest'' | Some v \<Rightarrow> v);
          completed = subprocess_run env
             [path_join env (getcwd env) (''omnicli'' @ shell_ext env), ''delete'', base_url]
      in if sublist ''Error: Not Found'' (snd completed) then Inr ()
         else if fst completed = 0 then Inr () else Inl AssertionError)"
  by (simp add: clean_base_url_def run_shell_script_def g_base_url_env_key_def
      g_default_base_url_def Let_def case_prod_beta split: option.split)

text \<open>
  Witness for C7: a failed delete of an absent folder passes, a failed delete for another
  reason does not.
\<close>

theorem clean_base_url_outcome_witness:
  "clean_base_url absent_env = Inr () \<and> clean_base_url denied_env = Inl AssertionError"
  using clean_base_url_outcome[of absent_env] clean_base_url_outcome[of denied_env]
  by (simp add: absent_env_def denied_env_def shell_ext_def sublist_code)

end
